theory Spec2Isabelle
  imports Main "HOL-Library.Sublist"
begin

section \<open>Python values used by the scripts\<close>

text \<open>
  A Python \<open>str\<close> is modelled as a \<open>string\<close> whose characters are the code points
  below 256 (Latin-1); code points above that are outside the model. A value that
  arrives through JSON, or that Python passes around untyped, is a \<open>json\<close>:
  \<open>JNull\<close> is \<open>None\<close>, \<open>JNum\<close> an integer (floats are outside the model),
  \<open>JObj\<close> a dict as its list of items in insertion order.
\<close>

datatype json =
    JNull
  | JBool bool
  | JNum int
  | JStr string
  | JArr "json list"
  | JObj "(string \<times> json) list"

text \<open>Exceptions derived from \<open>Exception\<close>: the class, as far as an \<open>except\<close>
  clause of the repository tells it apart, and the text of \<open>str(e)\<close>.\<close>

datatype exn_class = ValueError | AttributeError | OtherException

datatype exn = Exn (exn_cls: exn_class) (exn_str: string)

definition nl :: string where
  "nl = [CHR 0x0A]"

definition quote :: string where
  "quote = [CHR 0x27]"

text \<open>\<open>str.isspace\<close> on one code point below 256.\<close>

definition py_isspace :: "char \<Rightarrow> bool" where
  "py_isspace c =
     (let n = (of_char c :: nat)
      in (9 \<le> n \<and> n \<le> 13) \<or> (28 \<le> n \<and> n \<le> 32) \<or> n = 133 \<or> n = 160)"

text \<open>\<open>s.strip()\<close>: leading and trailing whitespace removed.\<close>

definition py_strip :: "string \<Rightarrow> string" where
  "py_strip s = rev (dropWhile py_isspace (rev (dropWhile py_isspace s)))"

text \<open>\<open>s.lower()\<close> on code points below 256: A-Z and the accented capitals
  0xC0-0xDE (but the multiplication sign 0xD7) move up by 32.\<close>

definition py_lower_char :: "char \<Rightarrow> char" where
  "py_lower_char c =
     (let n = (of_char c :: nat)
      in if (65 \<le> n \<and> n \<le> 90) \<or> (192 \<le> n \<and> n \<le> 222 \<and> n \<noteq> 215)
         then char_of (n + 32) else c)"

definition py_lower :: "string \<Rightarrow> string" where
  "py_lower s = map py_lower_char s"

text \<open>Truth value of a Python object, as \<open>not x\<close>, \<open>x or y\<close> and \<open>bool(x)\<close> use it.\<close>

fun truthy :: "json \<Rightarrow> bool" where
  "truthy JNull = False"
| "truthy (JBool b) = b"
| "truthy (JNum n) = (n \<noteq> 0)"
| "truthy (JStr s) = (s \<noteq> [])"
| "truthy (JArr xs) = (xs \<noteq> [])"
| "truthy (JObj kvs) = (kvs \<noteq> [])"

definition py_or :: "json \<Rightarrow> json \<Rightarrow> json" where
  "py_or a b = (if truthy a then a else b)"

text \<open>An optional string as \<open>os.getenv\<close> returns it.\<close>

definition opt_json :: "string option \<Rightarrow> json" where
  "opt_json v = (case v of None \<Rightarrow> JNull | Some s \<Rightarrow> JStr s)"

text \<open>
  \<open>str(x)\<close>, which an f-string applies to the value it interpolates. The text of a
  string is the string itself; for every other value it is Python's \<open>repr\<close>, which
  the repository does not define and the model takes as the parameter \<open>repr\<close>.
\<close>

definition py_str :: "(json \<Rightarrow> string) \<Rightarrow> json \<Rightarrow> string" where
  "py_str repr v = (case v of JStr s \<Rightarrow> s | _ \<Rightarrow> repr v)"

fun type_name :: "json \<Rightarrow> string" where
  "type_name JNull = ''NoneType''"
| "type_name (JBool b) = ''bool''"
| "type_name (JNum n) = ''int''"
| "type_name (JStr s) = ''str''"
| "type_name (JArr xs) = ''list''"
| "type_name (JObj kvs) = ''dict''"

text \<open>\<open>x.strip()\<close> and \<open>x.lower()\<close> on an untyped value: only a \<open>str\<close> has the
  method, any other object raises \<open>AttributeError\<close>.\<close>

definition no_attribute :: "json \<Rightarrow> string \<Rightarrow> exn" where
  "no_attribute v a =
     Exn AttributeError
       (quote @ type_name v @ quote @ '' object has no attribute '' @ quote @ a @ quote)"

definition strip_method :: "json \<Rightarrow> exn + string" where
  "strip_method v = (case v of JStr s \<Rightarrow> Inr (py_strip s) | _ \<Rightarrow> Inl (no_attribute v ''strip''))"

definition lower_method :: "json \<Rightarrow> exn + string" where
  "lower_method v = (case v of JStr s \<Rightarrow> Inr (py_lower s) | _ \<Rightarrow> Inl (no_attribute v ''lower''))"

text \<open>The process environment, and \<open>os.getenv\<close> with and without a default.\<close>

type_synonym environ = "string \<rightharpoonup> string"

definition getenv_default :: "environ \<Rightarrow> string \<Rightarrow> string \<Rightarrow> string" where
  "getenv_default env k d = (case env k of None \<Rightarrow> d | Some v \<Rightarrow> v)"

section \<open>chatbox_gradio/ai.py\<close>

datatype ModelProvider = AUTO | GPT | CLAUDE

fun provider_value :: "ModelProvider \<Rightarrow> string" where
  "provider_value AUTO = ''auto''"
| "provider_value GPT = ''gpt''"
| "provider_value CLAUDE = ''claude''"

text \<open>\<open>self.config\<close>, a dict of three dicts with fixed keys.\<close>

record ai_config =
  ollama_base_url :: string
  ollama_model :: string
  openai_api_key :: "string option"
  openai_base_url :: string
  openai_model :: string
  anthropic_api_key :: "string option"
  anthropic_model :: string

definition setup_config :: "environ \<Rightarrow> ai_config" where
  "setup_config env =
     \<lparr> ollama_base_url = getenv_default env ''OLLAMA_BASE_URL'' ''http://localhost:11434'',
       ollama_model = getenv_default env ''OLLAMA_DEFAULT_MODEL'' ''qwen3:8b'',
       openai_api_key = env ''OPENAI_API_KEY'',
       openai_base_url = getenv_default env ''OPENAI_BASE_URL'' ''https://api.openai.com/v1'',
       openai_model = ''gpt-3.5-turbo'',
       anthropic_api_key = env ''ANTHROPIC_API_KEY'',
       anthropic_model = ''claude-3-haiku-20240307'' \<rparr>"

text \<open>
  A chain is the \<open>RunnableSequence\<close> of a prompt template and an SDK client. The SDK
  constructors are taken to store their arguments; \<open>chain_id\<close> is the identity of the
  constructed object, so that two chains built from the same arguments are still two
  objects.
\<close>

datatype llm_class = OllamaLLM | ChatOpenAI | ChatAnthropic

record chain =
  chain_id :: nat
  chain_template :: string
  llm_cls :: llm_class
  llm_model :: json
  llm_api_key :: "string option"
  llm_base_url :: "string option"

text \<open>The \<open>AIService\<close> object: its config, its \<open>chains\<close> dict, and the number of
  chain objects constructed so far (the next fresh identity).\<close>

record ai_service =
  config :: ai_config
  chains :: "string \<rightharpoonup> chain"
  next_id :: nat

definition AIService :: "environ \<Rightarrow> ai_service" where
  "AIService env = \<lparr> config = setup_config env, chains = Map.empty, next_id = 0 \<rparr>"

definition create_prompt_template :: "string option \<Rightarrow> string" where
  "create_prompt_template custom_template =
     (case custom_template of
        Some t \<Rightarrow> (if t \<noteq> [] then t else ''Human: {question}'' @ nl @ nl @ ''Assistant:'')
      | None \<Rightarrow> ''Human: {question}'' @ nl @ nl @ ''Assistant:'')"

definition create_ollama_chain :: "ai_service \<Rightarrow> json \<Rightarrow> (exn + chain) \<times> ai_service" where
  "create_ollama_chain self model =
     (let model_name = py_or model (JStr (ollama_model (config self)))
      in (Inr \<lparr> chain_id = next_id self,
                 chain_template = create_prompt_template None,
                 llm_cls = OllamaLLM,
                 llm_model = model_name,
                 llm_api_key = None,
                 llm_base_url = Some (ollama_base_url (config self)) \<rparr>,
          self\<lparr>next_id := Suc (next_id self)\<rparr>))"

definition create_openai_chain :: "ai_service \<Rightarrow> json \<Rightarrow> (exn + chain) \<times> ai_service" where
  "create_openai_chain self model =
     (if \<not> truthy (opt_json (openai_api_key (config self)))
      then (Inl (Exn ValueError
              ''OpenAI API key not configured. Please set OPENAI_API_KEY environment variable.''),
            self)
      else
        (let model_name = py_or model (JStr (openai_model (config self)))
         in (Inr \<lparr> chain_id = next_id self,
                    chain_template = create_prompt_template None,
                    llm_cls = ChatOpenAI,
                    llm_model = model_name,
                    llm_api_key = openai_api_key (config self),
                    llm_base_url = Some (openai_base_url (config self)) \<rparr>,
             self\<lparr>next_id := Suc (next_id self)\<rparr>)))"

definition create_anthropic_chain :: "ai_service \<Rightarrow> json \<Rightarrow> (exn + chain) \<times> ai_service" where
  "create_anthropic_chain self model =
     (if \<not> truthy (opt_json (anthropic_api_key (config self)))
      then (Inl (Exn ValueError
              ''Anthropic API key not configured. Please set ANTHROPIC_API_KEY environment variable.''),
            self)
      else
        (let model_name = py_or model (JStr (anthropic_model (config self)))
         in (Inr \<lparr> chain_id = next_id self,
                    chain_template = create_prompt_template None,
                    llm_cls = ChatAnthropic,
                    llm_model = model_name,
                    llm_api_key = anthropic_api_key (config self),
                    llm_base_url = None \<rparr>,
             self\<lparr>next_id := Suc (next_id self)\<rparr>)))"

definition cache_key :: "(json \<Rightarrow> string) \<Rightarrow> ModelProvider \<Rightarrow> json \<Rightarrow> string" where
  "cache_key repr provider model =
     provider_value provider @ ''_'' @ py_str repr (py_or model (JStr ''default''))"

text \<open>
  \<open>get_chain\<close>. The final \<open>else\<close> of the source (an unsupported provider) has no
  case here: the enum has the three members only.
\<close>

definition get_chain ::
  "(json \<Rightarrow> string) \<Rightarrow> ai_service \<Rightarrow> ModelProvider \<Rightarrow> json \<Rightarrow> (exn + chain) \<times> ai_service" where
  "get_chain repr self provider model =
     (let key = cache_key repr provider model
      in case chains self key of
           Some c \<Rightarrow> (Inr c, self)
         | None \<Rightarrow>
             (case (case provider of
                      AUTO \<Rightarrow> create_ollama_chain self model
                    | GPT \<Rightarrow> create_openai_chain self model
                    | CLAUDE \<Rightarrow> create_anthropic_chain self model) of
                (Inl e, self') \<Rightarrow> (Inl e, self')
              | (Inr c, self') \<Rightarrow> (Inr c, self'\<lparr>chains := (chains self')(key \<mapsto> c)\<rparr>)))"

text \<open>
  What \<open>chain.invoke\<close> returns: an object with a \<open>content\<close> attribute (a chat
  message), a \<open>str\<close>, or another object, kept as the text \<open>str\<close> gives for it.
\<close>

datatype response = HasContent string | StrResponse string | OtherResponse string

text \<open>
  The provider behind a chain is outside the repository. It is a parameter: a function
  from the state of the outside world, the chain and the prompt to what
  \<open>chain.invoke\<close> does (a response, or an exception) and the world afterwards.
\<close>

type_synonym 'w invoker = "'w \<Rightarrow> chain \<Rightarrow> string \<Rightarrow> (exn + response) \<times> 'w"

fun troubleshooting :: "ModelProvider \<Rightarrow> string" where
  "troubleshooting AUTO =
     nl @ nl @ ''Troubleshooting:'' @ nl @ ''- Make sure Ollama is running (ollama serve)''
       @ nl @ ''- Check if model is available (ollama list)''"
| "troubleshooting GPT =
     nl @ nl @ ''Troubleshooting:'' @ nl @ ''- Check OpenAI API key''
       @ nl @ ''- Verify internet connection'' @ nl @ ''- Check API quotas''"
| "troubleshooting CLAUDE =
     nl @ nl @ ''Troubleshooting:'' @ nl @ ''- Check Anthropic API key''
       @ nl @ ''- Verify internet connection'' @ nl @ ''- Check API quotas''"

definition error_msg :: "ModelProvider \<Rightarrow> exn \<Rightarrow> string" where
  "error_msg provider e =
     ''Error with '' @ provider_value provider @ '': '' @ exn_str e @ troubleshooting provider"

fun response_text :: "response \<Rightarrow> string" where
  "response_text (HasContent c) = c"
| "response_text (StrResponse s) = s"
| "response_text (OtherResponse s) = s"

definition invoke_model ::
  "(json \<Rightarrow> string) \<Rightarrow> 'w invoker \<Rightarrow> ai_service \<Rightarrow> 'w \<Rightarrow> string \<Rightarrow> ModelProvider \<Rightarrow> json
     \<Rightarrow> (exn + string) \<times> ai_service \<times> 'w" where
  "invoke_model repr invoke self w prompt provider model =
     (case get_chain repr self provider model of
        (Inl e, self') \<Rightarrow> (Inl (Exn OtherException (error_msg provider e)), self', w)
      | (Inr c, self') \<Rightarrow>
          (case invoke w c prompt of
             (Inl e, w') \<Rightarrow> (Inl (Exn OtherException (error_msg provider e)), self', w')
           | (Inr r, w') \<Rightarrow> (Inr (response_text r), self', w')))"

text \<open>\<open>ModelProvider(value)\<close>: the member with that value, or \<open>ValueError\<close>.\<close>

definition ModelProvider_of :: "(json \<Rightarrow> string) \<Rightarrow> string \<Rightarrow> exn + ModelProvider" where
  "ModelProvider_of repr v =
     (if v = ''auto'' then Inr AUTO
      else if v = ''gpt'' then Inr GPT
      else if v = ''claude'' then Inr CLAUDE
      else Inl (Exn ValueError (repr (JStr v) @ '' is not a valid ModelProvider'')))"

definition get_ai_response ::
  "(json \<Rightarrow> string) \<Rightarrow> 'w invoker \<Rightarrow> ai_service \<Rightarrow> 'w \<Rightarrow> string \<Rightarrow> string \<Rightarrow> json
     \<Rightarrow> (exn + string) \<times> ai_service \<times> 'w" where
  "get_ai_response repr invoke ai w prompt model_provider specific_model =
     (case ModelProvider_of repr (py_lower model_provider) of
        Inl e \<Rightarrow> (Inl e, ai, w)
      | Inr provider \<Rightarrow> invoke_model repr invoke ai w prompt provider specific_model)"

section \<open>chatbox_gradio/backend.py\<close>

text \<open>
  A request to the service, as the handler reads it: whether it is declared as JSON,
  and the dict that \<open>request.get_json()\<close> returns for its body (a JSON object). A
  response is the status code with the dict given to \<open>jsonify\<close>.
\<close>

record request =
  is_json :: bool
  json_body :: "(string \<times> json) list"

record http_response =
  status :: nat
  payload :: "(string \<times> json) list"

definition getenv_bool :: "environ \<Rightarrow> string \<Rightarrow> bool" where
  "getenv_bool env k = truthy (opt_json (env k))"

definition get_available_models :: "environ \<Rightarrow> http_response" where
  "get_available_models env =
     \<lparr> status = 200,
       payload =
         [(''models'', JArr
            [JObj [(''id'', JStr ''auto''),
                   (''name'', JStr ''Auto (Ollama)''),
                   (''provider'', JStr ''ollama''),
                   (''description'', JStr ''Local Ollama models (qwen3:8b)''),
                   (''requires_api_key'', JBool False)],
             JObj [(''id'', JStr ''gpt''),
                   (''name'', JStr ''GPT (OpenAI)''),
                   (''provider'', JStr ''openai''),
                   (''description'', JStr ''OpenAI GPT models''),
                   (''requires_api_key'', JBool True),
                   (''available'', JBool (getenv_bool env ''OPENAI_API_KEY''))],
             JObj [(''id'', JStr ''claude''),
                   (''name'', JStr ''Claude (Anthropic)''),
                   (''provider'', JStr ''anthropic''),
                   (''description'', JStr ''Anthropic Claude models''),
                   (''requires_api_key'', JBool True),
                   (''available'', JBool (getenv_bool env ''ANTHROPIC_API_KEY''))]])] \<rparr>"

definition error_response :: "nat \<Rightarrow> string \<Rightarrow> http_response" where
  "error_response code msg =
     \<lparr> status = code, payload = [(''error'', JStr msg), (''status'', JStr ''error'')] \<rparr>"

definition valid_providers :: "string list" where
  "valid_providers = [''auto'', ''gpt'', ''claude'']"

text \<open>The text the f-string gives for this list: \<open>['auto', 'gpt', 'claude']\<close>.\<close>

definition valid_providers_text :: string where
  "valid_providers_text =
     ''['' @ quote @ ''auto'' @ quote @ '', '' @ quote @ ''gpt'' @ quote @ '', ''
       @ quote @ ''claude'' @ quote @ '']''"

text \<open>\<open>data.get(key)\<close>: the value, or \<open>None\<close>.\<close>

definition dict_get :: "(string \<times> json) list \<Rightarrow> string \<Rightarrow> json" where
  "dict_get data k = (case map_of data k of None \<Rightarrow> JNull | Some v \<Rightarrow> v)"

text \<open>
  The body of the \<open>try\<close> block of \<open>chat\<close>: \<open>Inl\<close> is an exception that leaves it,
  \<open>Inr\<close> the response of one of its \<open>return\<close> statements. The prompt is stripped
  once here; the source strips it a second time, with the same result.
\<close>

definition chat_try ::
  "(json \<Rightarrow> string) \<Rightarrow> 'w invoker \<Rightarrow> ai_service \<Rightarrow> 'w \<Rightarrow> request
     \<Rightarrow> (exn + http_response) \<times> ai_service \<times> 'w" where
  "chat_try repr invoke ai w req =
     (if \<not> is_json req then (Inr (error_response 400 ''Request must be JSON''), ai, w)
      else
        (let data = json_body req
         in case map_of data ''prompt'' of
              None \<Rightarrow>
                (Inr (error_response 400 ''Prompt is required and cannot be empty''), ai, w)
            | Some pv \<Rightarrow>
                (case strip_method pv of
                   Inl e \<Rightarrow> (Inl e, ai, w)
                 | Inr prompt \<Rightarrow>
                     if prompt = []
                     then (Inr (error_response 400 ''Prompt is required and cannot be empty''), ai, w)
                     else
                       (case map_of data ''model'' of
                          None \<Rightarrow> (Inr (error_response 400 ''Model is required''), ai, w)
                        | Some mv \<Rightarrow>
                            (case lower_method mv of
                               Inl e \<Rightarrow> (Inl e, ai, w)
                             | Inr model_provider \<Rightarrow>
                                 (let specific_model = dict_get data ''specific_model''
                                  in if model_provider \<notin> set valid_providers
                                     then (Inr (error_response 400
                                             (''Invalid model provider. Must be one of: ''
                                                @ valid_providers_text)), ai, w)
                                     else
                                       (case get_ai_response repr invoke ai w prompt
                                               model_provider specific_model of
                                          (Inl e, ai', w') \<Rightarrow> (Inl e, ai', w')
                                        | (Inr response, ai', w') \<Rightarrow>
                                            (Inr \<lparr> status = 200,
                                                   payload =
                                                     [(''response'', JStr response),
                                                      (''model_used'', JStr model_provider),
                                                      (''specific_model'', specific_model),
                                                      (''status'', JStr ''success'')] \<rparr>,
                                             ai', w'))))))))"

text \<open>\<open>chat\<close>: the \<open>try\<close> block under its two handlers, \<open>except ValueError\<close>
  first and \<open>except Exception\<close> after it.\<close>

definition chat ::
  "(json \<Rightarrow> string) \<Rightarrow> 'w invoker \<Rightarrow> ai_service \<Rightarrow> 'w \<Rightarrow> request
     \<Rightarrow> http_response \<times> ai_service \<times> 'w" where
  "chat repr invoke ai w req =
     (case chat_try repr invoke ai w req of
        (Inr r, ai', w') \<Rightarrow> (r, ai', w')
      | (Inl e, ai', w') \<Rightarrow>
          (if exn_cls e = ValueError then (error_response 400 (exn_str e), ai', w')
           else (error_response 500 (''Failed to process chat request: '' @ exn_str e), ai', w')))"

section \<open>taiga/main.py\<close>

text \<open>
  The messages of the conversation history, with the \<open>content\<close> they are built
  from. Whether the message classes accept a content is decided by the library: the
  parameter \<open>validate\<close> gives the exception a constructor raises, if any.
\<close>

datatype message = HumanMessage json | AIMessage json

text \<open>
  What one turn of the loop meets from outside: \<open>input\<close> returns a line, raises an
  exception (end of input, say) or is interrupted from the keyboard; the agent
  executor, given the input and the history, returns a result, raises, or is
  interrupted.
\<close>

datatype input_event = Line string | InputRaises exn | InputInterrupted

datatype agent_outcome = Returns json | Raises exn | Interrupted

type_synonym executor = "string \<Rightarrow> message list \<Rightarrow> agent_outcome"

text \<open>How a turn ends: the loop goes on, leaves through \<open>break\<close>, or an exception
  leaves \<open>interactive_mode\<close>.\<close>

datatype control = Continue | Break | Crash exn

text \<open>The two-element list literal given to \<open>chat_history.extend\<close>: the messages
  are constructed left to right, and nothing is appended when a constructor raises.\<close>

definition message_pair ::
  "(message \<Rightarrow> exn option) \<Rightarrow> json \<Rightarrow> json \<Rightarrow> exn + message list" where
  "message_pair validate human ai =
     (case validate (HumanMessage human) of
        Some e \<Rightarrow> Inl e
      | None \<Rightarrow>
          (case validate (AIMessage ai) of
             Some e \<Rightarrow> Inl e
           | None \<Rightarrow> Inr [HumanMessage human, AIMessage ai]))"

text \<open>The handler \<open>except Exception as e\<close> of the loop; \<open>user_input\<close> is still
  \<open>None\<close> when \<open>input\<close> itself raised.\<close>

definition on_exception ::
  "(message \<Rightarrow> exn option) \<Rightarrow> message list \<Rightarrow> json \<Rightarrow> exn \<Rightarrow> message list \<times> control" where
  "on_exception validate chat_history user_input e =
     (case message_pair validate user_input (JStr (''Got error: '' @ exn_str e)) of
        Inl e' \<Rightarrow> (chat_history, Crash e')
      | Inr pair \<Rightarrow> (chat_history @ pair, Continue))"

definition result_output :: "(json \<Rightarrow> string) \<Rightarrow> json \<Rightarrow> json" where
  "result_output repr result =
     (case result of
        JObj kvs \<Rightarrow>
          (case map_of kvs ''output'' of
             Some v \<Rightarrow> v
           | None \<Rightarrow> JStr (py_str repr result))
      | _ \<Rightarrow> JStr (py_str repr result))"

text \<open>One turn of the \<open>while True\<close> loop of \<open>interactive_mode\<close>.\<close>

definition interactive_step ::
  "(message \<Rightarrow> exn option) \<Rightarrow> (json \<Rightarrow> string) \<Rightarrow> executor \<Rightarrow> message list \<Rightarrow> input_event
     \<Rightarrow> message list \<times> control" where
  "interactive_step validate repr executor chat_history ev =
     (case ev of
        InputInterrupted \<Rightarrow> (chat_history, Break)
      | InputRaises e \<Rightarrow> on_exception validate chat_history JNull e
      | Line raw \<Rightarrow>
          (let user_input = py_strip raw
           in if py_lower user_input \<in> set [''quit'', ''exit'', ''q''] then (chat_history, Break)
              else if user_input = [] then (chat_history, Continue)
              else
                (case executor user_input chat_history of
                   Interrupted \<Rightarrow> (chat_history, Break)
                 | Raises e \<Rightarrow> on_exception validate chat_history (JStr user_input) e
                 | Returns result \<Rightarrow>
                     (let output = result_output repr result
                      in case message_pair validate (JStr user_input) output of
                           Inl e \<Rightarrow> on_exception validate chat_history (JStr user_input) e
                         | Inr pair \<Rightarrow> (chat_history @ pair, Continue)))))"

text \<open>
  The loop over the inputs the session receives. It has no exit of its own: when the
  inputs given are used up it is still running (\<open>Continue\<close>), waiting for the next.
\<close>

fun interactive_loop ::
  "(message \<Rightarrow> exn option) \<Rightarrow> (json \<Rightarrow> string) \<Rightarrow> executor \<Rightarrow> message list
     \<Rightarrow> input_event list \<Rightarrow> message list \<times> control" where
  "interactive_loop validate repr executor chat_history [] = (chat_history, Continue)"
| "interactive_loop validate repr executor chat_history (ev # evs) =
     (case interactive_step validate repr executor chat_history ev of
        (h, Continue) \<Rightarrow> interactive_loop validate repr executor h evs
      | (h, ctl) \<Rightarrow> (h, ctl))"

definition interactive_mode ::
  "(message \<Rightarrow> exn option) \<Rightarrow> (json \<Rightarrow> string) \<Rightarrow> executor \<Rightarrow> input_event list
     \<Rightarrow> message list \<times> control" where
  "interactive_mode validate repr executor evs =
     interactive_loop validate repr executor [] evs"

section \<open>Notions for stating the properties\<close>

text \<open>The service after a sequence of \<open>get_chain\<close> calls; every change of the
  \<open>chains\<close> dict goes through \<open>get_chain\<close>.\<close>

fun after_calls ::
  "(json \<Rightarrow> string) \<Rightarrow> ai_service \<Rightarrow> (ModelProvider \<times> json) list \<Rightarrow> ai_service" where
  "after_calls repr self [] = self"
| "after_calls repr self ((provider, model) # calls) =
     after_calls repr (snd (get_chain repr self provider model)) calls"


text \<open>Reading the response of \<open>/api/models\<close>: the list under \<open>models\<close>, and a
  field of one of its entries.\<close>

definition models_of :: "http_response \<Rightarrow> json list" where
  "models_of r = (case map_of (payload r) ''models'' of Some (JArr es) \<Rightarrow> es | _ \<Rightarrow> [])"

definition entry_field :: "json \<Rightarrow> string \<Rightarrow> json option" where
  "entry_field e k = (case e of JObj kvs \<Rightarrow> map_of kvs k | _ \<Rightarrow> None)"

text \<open>
  Stand-ins for the examples: a provider that answers every prompt with a fixed text,
  one that fails with a fixed message (each counts its invocations in a \<open>nat\<close>), a
  library that accepts every message, and a \<open>repr\<close> for examples that never call it.
\<close>

definition replying :: "string \<Rightarrow> nat invoker" where
  "replying text w c prompt = (Inr (StrResponse text), Suc w)"


definition accept_all :: "message \<Rightarrow> exn option" where
  "accept_all m = None"

definition repr_unused :: "json \<Rightarrow> string" where
  "repr_unused v = []"


text \<open>Whether the config lets a chain of the provider be created: \<open>auto\<close> needs
  no key, the other two need theirs.\<close>

fun provider_configured :: "ai_config \<Rightarrow> ModelProvider \<Rightarrow> bool" where
  "provider_configured cfg AUTO = True"
| "provider_configured cfg GPT = truthy (opt_json (openai_api_key cfg))"
| "provider_configured cfg CLAUDE = truthy (opt_json (anthropic_api_key cfg))"

text \<open>Stand-ins for the agent executor: one that answers every task with a result
  dict holding a fixed output, one that raises with a fixed message.\<close>

definition answering :: "string \<Rightarrow> executor" where
  "answering out user_input chat_history =
     Returns (JObj [(''input'', JStr user_input), (''output'', JStr out)])"

definition raising :: "string \<Rightarrow> executor" where
  "raising msg user_input chat_history = Raises (Exn OtherException msg)"

section \<open>Properties of the chat endpoint\<close>

subsection \<open>Strings\<close>

lemma py_strip_empty_iff: "py_strip s = [] \<longleftrightarrow> (\<forall>c\<in>set s. py_isspace c)"
proof
  assume "py_strip s = []"
  then have d: "\<forall>c\<in>set (dropWhile py_isspace s). py_isspace c"
    by (simp add: py_strip_def)
  show "\<forall>c\<in>set s. py_isspace c"
  proof (cases "dropWhile py_isspace s")
    case Nil
    then show ?thesis by simp
  next
    case (Cons x xs)
    then have "\<not> py_isspace x" by (metis hd_dropWhile list.sel(1) list.distinct(1))
    moreover have "py_isspace x" using d Cons by simp
    ultimately show ?thesis by simp
  qed
next
  assume a: "\<forall>c\<in>set s. py_isspace c"
  then show "py_strip s = []" by (auto simp: py_strip_def dest: set_dropWhileD)
qed

lemma lower_valid:
  "py_lower ''auto'' = ''auto''" "py_lower ''gpt'' = ''gpt''" "py_lower ''claude'' = ''claude''"
  by code_simp+

lemma ModelProvider_of_valid:
  "ModelProvider_of repr ''auto'' = Inr AUTO"
  "ModelProvider_of repr ''gpt'' = Inr GPT"
  "ModelProvider_of repr ''claude'' = Inr CLAUDE"
  by (simp_all add: ModelProvider_of_def)

subsection \<open>The paths through \<open>chat\<close>\<close>

lemma invoke_model_exn_cls:
  "invoke_model repr invoke ai w prompt provider model = (Inl e, ai', w')
   \<Longrightarrow> exn_cls e = OtherException"
  by (auto simp: invoke_model_def split: prod.splits sum.splits)

lemma get_ai_response_exn_cls:
  assumes "mp \<in> set valid_providers"
    and "get_ai_response repr invoke ai w prompt mp model = (Inl e, ai', w')"
  shows "exn_cls e = OtherException"
  using assms
  by (auto simp: get_ai_response_def valid_providers_def lower_valid ModelProvider_of_valid
      dest: invoke_model_exn_cls)

lemma chat_not_json:
  "\<not> is_json req
   \<Longrightarrow> chat repr invoke ai w req = (error_response 400 ''Request must be JSON'', ai, w)"
  by (simp add: chat_def chat_try_def)

lemma chat_no_prompt:
  "is_json req \<Longrightarrow> map_of (json_body req) ''prompt'' = None \<Longrightarrow>
   chat repr invoke ai w req =
     (error_response 400 ''Prompt is required and cannot be empty'', ai, w)"
  by (simp add: chat_def chat_try_def)

lemma chat_prompt_blank:
  "is_json req \<Longrightarrow> map_of (json_body req) ''prompt'' = Some (JStr p) \<Longrightarrow> py_strip p = [] \<Longrightarrow>
   chat repr invoke ai w req =
     (error_response 400 ''Prompt is required and cannot be empty'', ai, w)"
  by (simp add: chat_def chat_try_def strip_method_def)

lemma chat_prompt_not_str:
  "is_json req \<Longrightarrow> map_of (json_body req) ''prompt'' = Some v \<Longrightarrow> \<forall>s. v \<noteq> JStr s \<Longrightarrow>
   chat repr invoke ai w req =
     (error_response 500
        (''Failed to process chat request: '' @ exn_str (no_attribute v ''strip'')), ai, w)"
  by (cases v) (simp_all add: chat_def chat_try_def strip_method_def no_attribute_def)


lemma chat_model_not_str:
  "is_json req \<Longrightarrow> map_of (json_body req) ''prompt'' = Some (JStr p) \<Longrightarrow> py_strip p \<noteq> [] \<Longrightarrow>
   map_of (json_body req) ''model'' = Some v \<Longrightarrow> \<forall>s. v \<noteq> JStr s \<Longrightarrow>
   chat repr invoke ai w req =
     (error_response 500
        (''Failed to process chat request: '' @ exn_str (no_attribute v ''lower'')), ai, w)"
  by (cases v)
    (simp_all add: chat_def chat_try_def strip_method_def lower_method_def no_attribute_def)

lemma chat_model_invalid:
  "is_json req \<Longrightarrow> map_of (json_body req) ''prompt'' = Some (JStr p) \<Longrightarrow> py_strip p \<noteq> [] \<Longrightarrow>
   map_of (json_body req) ''model'' = Some (JStr m) \<Longrightarrow> py_lower m \<notin> set valid_providers \<Longrightarrow>
   chat repr invoke ai w req =
     (error_response 400
        (''Invalid model provider. Must be one of: '' @ valid_providers_text), ai, w)"
  by (simp add: chat_def chat_try_def strip_method_def lower_method_def)

lemma chat_valid:
  assumes "is_json req" "map_of (json_body req) ''prompt'' = Some (JStr p)" "py_strip p \<noteq> []"
    "map_of (json_body req) ''model'' = Some (JStr m)" "py_lower m \<in> set valid_providers"
  shows "chat repr invoke ai w req =
     (case get_ai_response repr invoke ai w (py_strip p) (py_lower m)
             (dict_get (json_body req) ''specific_model'') of
        (Inl e, ai', w') \<Rightarrow>
          (error_response 500 (''Failed to process chat request: '' @ exn_str e), ai', w')
      | (Inr response, ai', w') \<Rightarrow>
          (\<lparr> status = 200,
             payload = [(''response'', JStr response), (''model_used'', JStr (py_lower m)),
                        (''specific_model'', dict_get (json_body req) ''specific_model''),
                        (''status'', JStr ''success'')] \<rparr>, ai', w'))"
proof (cases "get_ai_response repr invoke ai w (py_strip p) (py_lower m)
             (dict_get (json_body req) ''specific_model'')")
  case (fields res ai' w')
  show ?thesis
  proof (cases res)
    case (Inl e)
    have "exn_cls e = OtherException"
      using get_ai_response_exn_cls [OF assms(5) fields [unfolded Inl]] .
    with Inl fields assms show ?thesis
      by (simp add: chat_def chat_try_def strip_method_def lower_method_def)
  next
    case (Inr r)
    with fields assms show ?thesis
      by (simp add: chat_def chat_try_def strip_method_def lower_method_def)
  qed
qed



text \<open>
  C9 (as stated): a body with a non-string model but no prompt is turned away by the
  prompt check, with status 400, before \<open>.lower()\<close> is ever called on the model.
\<close>

theorem chat_non_string_model_counterexample:
  "status (fst (chat repr_unused (replying ''hello'') (AIService Map.empty) 0
      \<lparr> is_json = True, json_body = [(''model'', JNum 5)] \<rparr>)) = 400"
  by (simp add: chat_no_prompt error_response_def)

text \<open>
  C9 (amended). A JSON request whose prompt value is not a string, or whose prompt is
  a string that is not blank and whose model value is not a string, is answered with
  status 500: \<open>.strip()\<close> or \<open>.lower()\<close> raises \<open>AttributeError\<close>, which only the
  generic handler catches.
\<close>

theorem chat_non_string_500:
  assumes "is_json req"
    and "(\<exists>v. map_of (json_body req) ''prompt'' = Some v \<and> (\<forall>s. v \<noteq> JStr s))
       \<or> (\<exists>p v. map_of (json_body req) ''prompt'' = Some (JStr p) \<and> \<not> (\<forall>c\<in>set p. py_isspace c)
              \<and> map_of (json_body req) ''model'' = Some v \<and> (\<forall>s. v \<noteq> JStr s))"
  shows "status (fst (chat repr invoke ai w req)) = 500"
  using assms(2)
proof
  assume "\<exists>v. map_of (json_body req) ''prompt'' = Some v \<and> (\<forall>s. v \<noteq> JStr s)"
  then obtain v where "map_of (json_body req) ''prompt'' = Some v" "\<forall>s. v \<noteq> JStr s" by blast
  with assms(1) show ?thesis by (simp add: chat_prompt_not_str error_response_def)
next
  assume "\<exists>p v. map_of (json_body req) ''prompt'' = Some (JStr p) \<and> \<not> (\<forall>c\<in>set p. py_isspace c)
              \<and> map_of (json_body req) ''model'' = Some v \<and> (\<forall>s. v \<noteq> JStr s)"
  then obtain p v where "map_of (json_body req) ''prompt'' = Some (JStr p)" "py_strip p \<noteq> []"
    "map_of (json_body req) ''model'' = Some v" "\<forall>s. v \<noteq> JStr s"
    using py_strip_empty_iff by blast
  with assms(1) show ?thesis by (simp add: chat_model_not_str error_response_def)
qed

theorem chat_non_string_500_witness:
  "status (fst (chat repr_unused (replying ''hello'') (AIService Map.empty) 0
      \<lparr> is_json = True, json_body = [(''prompt'', JNum 5), (''model'', JStr ''auto'')] \<rparr>)) = 500"
  using chat_non_string_500
    [of "\<lparr> is_json = True, json_body = [(''prompt'', JNum 5), (''model'', JStr ''auto'')] \<rparr>"
      repr_unused "replying ''hello''" "AIService Map.empty" 0]
  by simp

text \<open>
  C4 (as stated): the model \<open>AUTO\<close> is a string outside \<open>auto\<close>, \<open>gpt\<close>, \<open>claude\<close>,
  yet the handler lowercases it and answers 200; and with a prompt that is not a
  string a model outside the set is never looked at, the answer is 500.
\<close>

theorem chat_invalid_model_counterexample:
  "''AUTO'' \<notin> set valid_providers
   \<and> status (fst (chat repr_unused (replying ''hello'') (AIService Map.empty) 0
       \<lparr> is_json = True, json_body = [(''prompt'', JStr ''hi''), (''model'', JStr ''AUTO'')] \<rparr>)) = 200
   \<and> ''llama'' \<notin> set valid_providers
   \<and> status (fst (chat repr_unused (replying ''hello'') (AIService Map.empty) 0
       \<lparr> is_json = True, json_body = [(''prompt'', JNum 5), (''model'', JStr ''llama'')] \<rparr>)) = 500"
  by code_simp

text \<open>
  C4 (amended). A request whose prompt, when present, is a string, and whose model is
  a string that in lower case is none of \<open>auto\<close>, \<open>gpt\<close>, \<open>claude\<close>, is answered
  with status 400.
\<close>

theorem chat_invalid_model_400:
  assumes "\<forall>v. map_of (json_body req) ''prompt'' = Some v \<longrightarrow> (\<exists>p. v = JStr p)"
    and "map_of (json_body req) ''model'' = Some (JStr m)"
    and "py_lower m \<notin> set valid_providers"
  shows "status (fst (chat repr invoke ai w req)) = 400"
proof (cases "is_json req")
  case False
  then show ?thesis by (simp add: chat_not_json error_response_def)
next
  case True
  show ?thesis
  proof (cases "map_of (json_body req) ''prompt''")
    case None
    with True show ?thesis by (simp add: chat_no_prompt error_response_def)
  next
    case (Some v)
    with assms(1) obtain p where p: "map_of (json_body req) ''prompt'' = Some (JStr p)" by auto
    show ?thesis
    proof (cases "py_strip p = []")
      case True
      with \<open>is_json req\<close> p show ?thesis by (simp add: chat_prompt_blank error_response_def)
    next
      case False
      with \<open>is_json req\<close> p assms(2,3) show ?thesis
        by (simp add: chat_model_invalid error_response_def)
    qed
  qed
qed

theorem chat_invalid_model_400_witness:
  "map_of (json_body \<lparr> is_json = True,
        json_body = [(''prompt'', JStr ''hi''), (''model'', JStr ''llama'')] \<rparr>) ''model''
     = Some (JStr ''llama'')
   \<and> status (fst (chat repr_unused (replying ''hello'') (AIService Map.empty) 0
       \<lparr> is_json = True, json_body = [(''prompt'', JStr ''hi''), (''model'', JStr ''llama'')] \<rparr>)) = 400"
proof -
  have l: "py_lower ''llama'' \<notin> set valid_providers" by code_simp
  show ?thesis
    using l chat_invalid_model_400
      [of "\<lparr> is_json = True, json_body = [(''prompt'', JStr ''hi''), (''model'', JStr ''llama'')] \<rparr>"
        "''llama''" repr_unused "replying ''hello''" "AIService Map.empty" 0]
    by simp
qed




section \<open>Properties of the model listing\<close>

text \<open>
  C2 (as stated): with \<open>OPENAI_API_KEY\<close> set to the empty string the variable is set,
  but the \<open>available\<close> flag of the \<open>gpt\<close> entry is false; and the \<open>auto\<close> entry
  carries no \<open>available\<close> flag at all.
\<close>

theorem models_available_counterexample:
  "[''OPENAI_API_KEY'' \<mapsto> []] ''OPENAI_API_KEY'' = Some []
   \<and> entry_field (models_of (get_available_models [''OPENAI_API_KEY'' \<mapsto> []]) ! 1) ''available''
       = Some (JBool False)
   \<and> entry_field (models_of (get_available_models [''OPENAI_API_KEY'' \<mapsto> []]) ! 0) ''available''
       = None"
  by (simp add: get_available_models_def models_of_def entry_field_def getenv_bool_def
      opt_json_def)

text \<open>
  C2 (amended). The response of \<open>/api/models\<close> lists exactly three entries, with the
  ids \<open>auto\<close>, \<open>gpt\<close>, \<open>claude\<close> in this order. The \<open>gpt\<close> and \<open>claude\<close> entries
  carry an \<open>available\<close> flag, true if and only if \<open>OPENAI_API_KEY\<close> (for
  \<open>gpt\<close>) or \<open>ANTHROPIC_API_KEY\<close> (for \<open>claude\<close>) is set to a non-empty string; the
  \<open>auto\<close> entry has no such flag.
\<close>

theorem models_listing:
  "map (\<lambda>e. entry_field e ''id'') (models_of (get_available_models env))
     = [Some (JStr ''auto''), Some (JStr ''gpt''), Some (JStr ''claude'')]
   \<and> entry_field (models_of (get_available_models env) ! 0) ''available'' = None
   \<and> entry_field (models_of (get_available_models env) ! 1) ''available''
       = Some (JBool (\<exists>v. env ''OPENAI_API_KEY'' = Some v \<and> v \<noteq> []))
   \<and> entry_field (models_of (get_available_models env) ! 2) ''available''
       = Some (JBool (\<exists>v. env ''ANTHROPIC_API_KEY'' = Some v \<and> v \<noteq> []))"
  by (auto simp: get_available_models_def models_of_def entry_field_def getenv_bool_def
      opt_json_def split: option.splits)

theorem models_listing_witness:
  "entry_field (models_of (get_available_models [''OPENAI_API_KEY'' \<mapsto> ''sk-test'']) ! 1) ''available''
       = Some (JBool True)
   \<and> entry_field (models_of (get_available_models [''OPENAI_API_KEY'' \<mapsto> ''sk-test'']) ! 2) ''available''
       = Some (JBool False)"
  using models_listing [of "[''OPENAI_API_KEY'' \<mapsto> ''sk-test'']"]
  by simp

section \<open>Properties of the AI service\<close>

subsection \<open>Invoking a model\<close>






subsection \<open>The empty model name\<close>




subsection \<open>The cache of chains\<close>

lemma get_chain_cases:
  "(\<exists>c. chains self (cache_key repr provider model) = Some c
        \<and> get_chain repr self provider model = (Inr c, self))
   \<or> (chains self (cache_key repr provider model) = None
        \<and> (\<exists>e. get_chain repr self provider model = (Inl e, self)))
   \<or> (chains self (cache_key repr provider model) = None
        \<and> (\<exists>c. chain_id c = next_id self
              \<and> get_chain repr self provider model
                  = (Inr c, self\<lparr>next_id := Suc (next_id self),
                                chains := (chains self)(cache_key repr provider model \<mapsto> c)\<rparr>)))"
  by (cases provider; cases "chains self (cache_key repr provider model)")
    (auto simp: get_chain_def create_ollama_chain_def create_openai_chain_def
      create_anthropic_chain_def Let_def)

lemma get_chain_hit:
  "chains self (cache_key repr provider model) = Some c
   \<Longrightarrow> get_chain repr self provider model = (Inr c, self)"
  by (simp add: get_chain_def)

lemma get_chain_keeps:
  "chains self k = Some c \<Longrightarrow> chains (snd (get_chain repr self provider model)) k = Some c"
  using get_chain_cases [of self repr provider model] by auto

lemma get_chain_stored:
  "get_chain repr self provider model = (Inr c, self')
   \<Longrightarrow> chains self' (cache_key repr provider model) = Some c"
  using get_chain_cases [of self repr provider model] by auto

lemma after_calls_keeps:
  "chains self k = Some c \<Longrightarrow> chains (after_calls repr self calls) k = Some c"
proof (induction calls arbitrary: self)
  case Nil
  then show ?case by simp
next
  case (Cons call calls)
  obtain p m where call: "call = (p, m)" by (cases call)
  from Cons.prems have "chains (snd (get_chain repr self p m)) k = Some c"
    by (rule get_chain_keeps)
  then show ?case unfolding call by (simp add: Cons.IH)
qed

lemma card_new_key:
  assumes "finite K" "k \<notin> D"
  shows "Suc (card (K - insert k D)) = card (insert k K - D)"
proof -
  have "insert k K - D = insert k (K - insert k D)" using assms(2) by auto
  moreover have "k \<notin> K - insert k D" by simp
  moreover have "finite (K - insert k D)" using assms(1) by simp
  ultimately show ?thesis by simp
qed

lemma after_calls_constructions:
  "next_id (after_calls repr self calls)
   \<le> next_id self + card ((\<lambda>(p, m). cache_key repr p m) ` set calls - dom (chains self))"
proof (induction calls arbitrary: self)
  case Nil
  then show ?case by simp
next
  case (Cons call calls)
  obtain p m where call: "call = (p, m)" by (cases call)
  let ?K = "(\<lambda>(p, m). cache_key repr p m) ` set calls"
  let ?k = "cache_key repr p m"
  let ?s = "snd (get_chain repr self p m)"
  have fin: "finite ?K" by simp
  have ih: "next_id (after_calls repr ?s calls) \<le> next_id ?s + card (?K - dom (chains ?s))"
    by (rule Cons.IH)
  have mono: "card (?K - dom (chains self)) \<le> card (insert ?k ?K - dom (chains self))"
    by (rule card_mono) (use fin in auto)
  from get_chain_cases [of self repr p m]
  have "next_id ?s + card (?K - dom (chains ?s))
        \<le> next_id self + card (insert ?k ?K - dom (chains self))"
  proof (elim disjE conjE exE)
    fix c assume "get_chain repr self p m = (Inr c, self)"
    then show ?thesis using mono by simp
  next
    fix e assume "get_chain repr self p m = (Inl e, self)"
    then show ?thesis using mono by simp
  next
    fix c assume n: "chains self ?k = None"
      and g: "get_chain repr self p m
                  = (Inr c, self\<lparr>next_id := Suc (next_id self),
                                chains := (chains self)(?k \<mapsto> c)\<rparr>)"
    from n have "?k \<notin> dom (chains self)" by auto
    from card_new_key [OF fin this] g show ?thesis by simp
  qed
  with ih show ?case unfolding call by simp
qed

text \<open>
  C7. \<open>get_chain\<close> constructs a chain at most once per cache key. A call whose key
  is in \<open>chains\<close> returns the stored chain and leaves the service as it is, the
  count of constructed chains included. A call whose key is missing and that succeeds
  constructs one chain, the next fresh object, and stores it under the key; a call
  that raises changes nothing. No later sequence of calls replaces an entry, so every
  later call with the same provider and model returns the chain of the first
  successful one; and a sequence of calls constructs no more chains than it has
  cache keys that were missing at its start.
\<close>

theorem get_chain_caches:
  "(\<forall>c. chains self (cache_key repr provider model) = Some c
        \<longrightarrow> get_chain repr self provider model = (Inr c, self))
   \<and> (\<forall>c self'. chains self (cache_key repr provider model) = None
           \<and> get_chain repr self provider model = (Inr c, self')
        \<longrightarrow> chain_id c = next_id self
           \<and> self' = self\<lparr>next_id := Suc (next_id self),
                         chains := (chains self)(cache_key repr provider model \<mapsto> c)\<rparr>)
   \<and> (\<forall>e self'. get_chain repr self provider model = (Inl e, self') \<longrightarrow> self' = self)
   \<and> (\<forall>k c. chains self k = Some c \<longrightarrow> chains (after_calls repr self calls) k = Some c)
   \<and> (\<forall>c self'. get_chain repr self provider model = (Inr c, self')
        \<longrightarrow> get_chain repr (after_calls repr self' calls) provider model
            = (Inr c, after_calls repr self' calls))
   \<and> next_id (after_calls repr self calls)
       \<le> next_id self + card ((\<lambda>(p, m). cache_key repr p m) ` set calls - dom (chains self))"
proof (intro conjI allI impI)
  fix c assume "chains self (cache_key repr provider model) = Some c"
  then show "get_chain repr self provider model = (Inr c, self)" by (rule get_chain_hit)
next
  fix c self'
  assume a: "chains self (cache_key repr provider model) = None
           \<and> get_chain repr self provider model = (Inr c, self')"
  with get_chain_cases [of self repr provider model]
  have "chain_id c = next_id self
           \<and> self' = self\<lparr>next_id := Suc (next_id self),
                         chains := (chains self)(cache_key repr provider model \<mapsto> c)\<rparr>"
    by auto
  then show "chain_id c = next_id self"
    and "self' = self\<lparr>next_id := Suc (next_id self),
                         chains := (chains self)(cache_key repr provider model \<mapsto> c)\<rparr>"
    by simp_all
next
  fix e self' assume "get_chain repr self provider model = (Inl e, self')"
  with get_chain_cases [of self repr provider model] show "self' = self" by auto
next
  fix k c assume "chains self k = Some c"
  then show "chains (after_calls repr self calls) k = Some c" by (rule after_calls_keeps)
next
  fix c self' assume "get_chain repr self provider model = (Inr c, self')"
  then have "chains self' (cache_key repr provider model) = Some c" by (rule get_chain_stored)
  then have "chains (after_calls repr self' calls) (cache_key repr provider model) = Some c"
    by (rule after_calls_keeps)
  then show "get_chain repr (after_calls repr self' calls) provider model
            = (Inr c, after_calls repr self' calls)"
    by (rule get_chain_hit)
next
  show "next_id (after_calls repr self calls)
       \<le> next_id self + card ((\<lambda>(p, m). cache_key repr p m) ` set calls - dom (chains self))"
    by (rule after_calls_constructions)
qed


theorem get_chain_caches_witness:
  "chain_id (projr (fst (get_chain repr_unused (AIService Map.empty) AUTO JNull))) = 0
   \<and> fst (get_chain repr_unused
          (after_calls repr_unused (snd (get_chain repr_unused (AIService Map.empty) AUTO JNull))
             [(AUTO, JStr ''llama3''), (AUTO, JNull)]) AUTO JNull)
       = fst (get_chain repr_unused (AIService Map.empty) AUTO JNull)"
proof -
  let ?s = "AIService Map.empty"
  have n: "chains ?s (cache_key repr_unused AUTO JNull) = None"
    by (simp add: AIService_def)
  have i: "next_id ?s = 0" by (simp add: AIService_def)
  obtain c s1 where g: "get_chain repr_unused ?s AUTO JNull = (Inr c, s1)"
    by (simp add: get_chain_def create_ollama_chain_def AIService_def)
  from get_chain_caches [of ?s repr_unused AUTO JNull "[(AUTO, JStr ''llama3''), (AUTO, JNull)]"]
  have a: "chains ?s (cache_key repr_unused AUTO JNull) = None
           \<and> get_chain repr_unused ?s AUTO JNull = (Inr c, s1)
        \<longrightarrow> chain_id c = next_id ?s"
    and b: "get_chain repr_unused ?s AUTO JNull = (Inr c, s1)
        \<longrightarrow> get_chain repr_unused (after_calls repr_unused s1 [(AUTO, JStr ''llama3''), (AUTO, JNull)])
              AUTO JNull
            = (Inr c, after_calls repr_unused s1 [(AUTO, JStr ''llama3''), (AUTO, JNull)])"
    by blast+
  from a n g i have "chain_id c = 0" by simp
  moreover from b g have "fst (get_chain repr_unused
          (after_calls repr_unused s1 [(AUTO, JStr ''llama3''), (AUTO, JNull)]) AUTO JNull)
       = Inr c"
    by simp
  ultimately show ?thesis by (simp add: g)
qed

subsection \<open>Providers without an API key\<close>

lemma cache_key_provider:
  "cache_key repr p m = cache_key repr p' m' \<Longrightarrow> p = p'"
  by (cases p; cases p') (simp_all add: cache_key_def)

lemma get_chain_config: "config (snd (get_chain repr self provider model)) = config self"
  using get_chain_cases [of self repr provider model] by auto

lemma get_chain_configured:
  "get_chain repr self provider model = (Inr c, self')
   \<Longrightarrow> chains self (cache_key repr provider model) = None
   \<Longrightarrow> provider_configured (config self) provider"
  by (cases provider)
    (auto simp: get_chain_def create_openai_chain_def create_anthropic_chain_def
      split: if_splits)

lemma get_chain_invariant:
  assumes "\<forall>p m. chains self (cache_key repr p m) \<noteq> None \<longrightarrow> provider_configured (config self) p"
  shows "\<forall>p m. chains (snd (get_chain repr self provider model)) (cache_key repr p m) \<noteq> None
           \<longrightarrow> provider_configured (config (snd (get_chain repr self provider model))) p"
proof (intro allI impI)
  fix p m
  assume s: "chains (snd (get_chain repr self provider model)) (cache_key repr p m) \<noteq> None"
  from get_chain_cases [of self repr provider model]
  have "provider_configured (config self) p"
  proof (elim disjE conjE exE)
    fix c assume "get_chain repr self provider model = (Inr c, self)"
    with s have "chains self (cache_key repr p m) \<noteq> None" by simp
    with assms show ?thesis by blast
  next
    fix e assume "get_chain repr self provider model = (Inl e, self)"
    with s have "chains self (cache_key repr p m) \<noteq> None" by simp
    with assms show ?thesis by blast
  next
    fix c assume n: "chains self (cache_key repr provider model) = None"
      and g: "get_chain repr self provider model
                  = (Inr c, self\<lparr>next_id := Suc (next_id self),
                                chains := (chains self)(cache_key repr provider model \<mapsto> c)\<rparr>)"
    show ?thesis
    proof (cases "cache_key repr p m = cache_key repr provider model")
      case True
      then have "p = provider" by (rule cache_key_provider)
      with get_chain_configured [OF g n] show ?thesis by simp
    next
      case False
      with s g have "chains self (cache_key repr p m) \<noteq> None" by simp
      with assms show ?thesis by blast
    qed
  qed
  then show "provider_configured (config (snd (get_chain repr self provider model))) p"
    by (simp add: get_chain_config)
qed

lemma after_calls_invariant:
  "(\<forall>p m. chains self (cache_key repr p m) \<noteq> None \<longrightarrow> provider_configured (config self) p)
   \<Longrightarrow> (\<forall>p m. chains (after_calls repr self calls) (cache_key repr p m) \<noteq> None
           \<longrightarrow> provider_configured (config (after_calls repr self calls)) p)"
proof (induction calls arbitrary: self)
  case Nil
  then show ?case by simp
next
  case (Cons call calls)
  obtain p m where call: "call = (p, m)" by (cases call)
  from Cons.prems have "\<forall>pa ma. chains (snd (get_chain repr self p m)) (cache_key repr pa ma) \<noteq> None
           \<longrightarrow> provider_configured (config (snd (get_chain repr self p m))) pa"
    by (rule get_chain_invariant)
  then show ?case unfolding call after_calls.simps by (rule Cons.IH)
qed

lemma after_calls_config: "config (after_calls repr self calls) = config self"
  by (induction calls arbitrary: self) (auto simp: get_chain_config)

lemma unconfigured_get_chain:
  assumes "self = after_calls repr (AIService env) calls"
    and "\<not> provider_configured (setup_config env) provider"
  shows "\<exists>e. get_chain repr self provider model = (Inl e, self)
     \<and> (provider = GPT \<longrightarrow> e = Exn ValueError
          ''OpenAI API key not configured. Please set OPENAI_API_KEY environment variable.'')
     \<and> (provider = CLAUDE \<longrightarrow> e = Exn ValueError
          ''Anthropic API key not configured. Please set ANTHROPIC_API_KEY environment variable.'')"
proof -
  have c: "config self = setup_config env"
    by (simp add: assms(1) after_calls_config AIService_def)
  have "\<forall>p m. chains (AIService env) (cache_key repr p m) \<noteq> None
           \<longrightarrow> provider_configured (config (AIService env)) p"
    by (simp add: AIService_def)
  then have "\<forall>p m. chains self (cache_key repr p m) \<noteq> None \<longrightarrow> provider_configured (config self) p"
    unfolding assms(1) by (rule after_calls_invariant)
  with c assms(2) have n: "chains self (cache_key repr provider model) = None" by metis
  with c assms(2) show ?thesis
    by (cases provider)
      (simp_all add: get_chain_def create_openai_chain_def create_anthropic_chain_def)
qed

lemma sublist_inside: "sublist a b \<Longrightarrow> sublist a (ps @ b @ ss)"
proof -
  assume "sublist a b"
  then obtain xs ys where "b = xs @ a @ ys" unfolding sublist_def by blast
  then have "ps @ b @ ss = (ps @ xs) @ a @ (ys @ ss)" by simp
  then show ?thesis unfolding sublist_def by blast
qed

lemma key_named:
  "sublist ''OPENAI_API_KEY''
     ''OpenAI API key not configured. Please set OPENAI_API_KEY environment variable.''"
  "sublist ''ANTHROPIC_API_KEY''
     ''Anthropic API key not configured. Please set ANTHROPIC_API_KEY environment variable.''"
  by code_simp+

lemma after_calls_append:
  "after_calls repr (after_calls repr self xs) ys = after_calls repr self (xs @ ys)"
  by (induction xs arbitrary: self) auto

lemma invoke_model_service:
  "fst (snd (invoke_model repr invoke self w prompt provider model))
     = snd (get_chain repr self provider model)"
  by (auto simp: invoke_model_def split: prod.splits sum.splits)

lemma chat_service:
  "\<exists>calls. fst (snd (chat repr invoke ai w req)) = after_calls repr ai calls"
proof -
  have "fst (snd (chat repr invoke ai w req)) = ai
      \<or> (\<exists>prompt provider model.
            fst (snd (chat repr invoke ai w req))
              = fst (snd (invoke_model repr invoke ai w prompt provider model)))"
    apply (auto simp: chat_def chat_try_def get_ai_response_def Let_def
        split: prod.splits sum.splits option.splits if_splits)
     apply (metis fst_conv snd_conv)+
    done
  then show ?thesis
  proof
    assume "fst (snd (chat repr invoke ai w req)) = ai"
    then have "fst (snd (chat repr invoke ai w req)) = after_calls repr ai []" by simp
    then show ?thesis ..
  next
    assume "\<exists>prompt provider model.
            fst (snd (chat repr invoke ai w req))
              = fst (snd (invoke_model repr invoke ai w prompt provider model))"
    then obtain provider model where
      "fst (snd (chat repr invoke ai w req)) = after_calls repr ai [(provider, model)]"
      by (auto simp: invoke_model_service)
    then show ?thesis ..
  qed
qed

lemma unconfigured_chat:
  assumes "ai = after_calls repr (AIService env) calls"
    and "\<not> provider_configured (setup_config env) provider"
    and "is_json req"
    and "map_of (json_body req) ''prompt'' = Some (JStr p)" "py_strip p \<noteq> []"
    and "map_of (json_body req) ''model'' = Some (JStr m)"
    and "py_lower m = provider_value provider"
  shows "\<exists>e. get_chain repr ai provider (dict_get (json_body req) ''specific_model'') = (Inl e, ai)
     \<and> chat repr invoke ai w req
       = (error_response 500 (''Failed to process chat request: '' @ error_msg provider e), ai, w)"
proof -
  from unconfigured_get_chain [OF assms(1,2)] obtain e where
    g: "get_chain repr ai provider (dict_get (json_body req) ''specific_model'') = (Inl e, ai)"
    by blast
  have v: "py_lower m \<in> set valid_providers"
    by (cases provider) (simp_all add: assms(7) valid_providers_def)
  have mp: "ModelProvider_of repr (py_lower (py_lower m)) = Inr provider"
    by (cases provider) (simp_all add: assms(7) lower_valid ModelProvider_of_valid)
  have "get_ai_response repr invoke ai w (py_strip p) (py_lower m)
          (dict_get (json_body req) ''specific_model'')
        = (Inl (Exn OtherException (error_msg provider e)), ai, w)"
    by (simp add: get_ai_response_def mp invoke_model_def g)
  with chat_valid [OF assms(3,4,5,6) v, of repr invoke ai w] g show ?thesis by simp
qed

text \<open>
  C5 (as stated): a request with model \<open>gpt\<close> and no prompt, with no key in the
  environment, is answered with the error of the prompt check, which does not name
  the key.
\<close>

theorem chat_missing_api_key_counterexample:
  "map_of (payload (fst (chat repr_unused (replying ''hello'') (AIService Map.empty) 0
       \<lparr> is_json = True, json_body = [(''model'', JStr ''gpt'')] \<rparr>))) ''error''
     = Some (JStr ''Prompt is required and cannot be empty'')
   \<and> \<not> sublist ''OPENAI_API_KEY'' ''Prompt is required and cannot be empty''"
proof -
  have "\<not> sublist ''OPENAI_API_KEY'' ''Prompt is required and cannot be empty''" by code_simp
  then show ?thesis by (simp add: chat_no_prompt error_response_def)
qed

text \<open>
  C5 (amended). Let the service be the one built from the environment, after any
  sequence of \<open>get_chain\<close> calls. A JSON request whose prompt is a string that is
  not blank, and whose model in lower case is \<open>gpt\<close> while \<open>OPENAI_API_KEY\<close> is
  unset, or \<open>claude\<close> while \<open>ANTHROPIC_API_KEY\<close> is unset, is answered with
  status 500 and an \<open>error\<close> string that contains the name of the missing key.
\<close>

theorem chat_missing_api_key:
  assumes "ai = after_calls repr (AIService env) calls"
    and "is_json req"
    and "map_of (json_body req) ''prompt'' = Some (JStr p)"
    and "\<not> (\<forall>c\<in>set p. py_isspace c)"
    and "map_of (json_body req) ''model'' = Some (JStr m)"
    and "(py_lower m = ''gpt'' \<and> env ''OPENAI_API_KEY'' = None \<and> key = ''OPENAI_API_KEY'')
       \<or> (py_lower m = ''claude'' \<and> env ''ANTHROPIC_API_KEY'' = None \<and> key = ''ANTHROPIC_API_KEY'')"
  shows "status (fst (chat repr invoke ai w req)) = 500
     \<and> (\<exists>msg. map_of (payload (fst (chat repr invoke ai w req))) ''error'' = Some (JStr msg)
            \<and> sublist key msg)"
proof -
  from assms(4) have s: "py_strip p \<noteq> []" by (simp add: py_strip_empty_iff)
  from assms(6) obtain provider where
    pv: "py_lower m = provider_value provider"
    and nc: "\<not> provider_configured (setup_config env) provider"
    and k: "\<forall>e. get_chain repr ai provider (dict_get (json_body req) ''specific_model'') = (Inl e, ai)
          \<longrightarrow> sublist key (exn_str e)"
  proof
    assume a: "py_lower m = ''gpt'' \<and> env ''OPENAI_API_KEY'' = None \<and> key = ''OPENAI_API_KEY''"
    have "\<not> provider_configured (setup_config env) GPT"
      using a by (simp add: setup_config_def opt_json_def)
    moreover from unconfigured_get_chain [OF assms(1) this]
    have "\<forall>e. get_chain repr ai GPT (dict_get (json_body req) ''specific_model'') = (Inl e, ai)
          \<longrightarrow> sublist key (exn_str e)"
      using a key_named(1) by fastforce
    ultimately show thesis using a that [of GPT] by simp
  next
    assume a: "py_lower m = ''claude'' \<and> env ''ANTHROPIC_API_KEY'' = None \<and> key = ''ANTHROPIC_API_KEY''"
    have "\<not> provider_configured (setup_config env) CLAUDE"
      using a by (simp add: setup_config_def opt_json_def)
    moreover from unconfigured_get_chain [OF assms(1) this]
    have "\<forall>e. get_chain repr ai CLAUDE (dict_get (json_body req) ''specific_model'') = (Inl e, ai)
          \<longrightarrow> sublist key (exn_str e)"
      using a key_named(2) by fastforce
    ultimately show thesis using a that [of CLAUDE] by simp
  qed
  from unconfigured_chat [OF assms(1) nc assms(2,3) s assms(5) pv, of invoke w] obtain e where
    g: "get_chain repr ai provider (dict_get (json_body req) ''specific_model'') = (Inl e, ai)"
    and c: "chat repr invoke ai w req
       = (error_response 500 (''Failed to process chat request: '' @ error_msg provider e), ai, w)"
    by blast
  from k g have "sublist key (exn_str e)" by blast
  then have "sublist key (''Failed to process chat request: '' @ error_msg provider e)"
    unfolding error_msg_def
    using sublist_inside [of key "exn_str e"
        "''Failed to process chat request: '' @ ''Error with '' @ provider_value provider @ '': ''"
        "troubleshooting provider"]
    by simp
  with c show ?thesis by (simp add: error_response_def)
qed

theorem chat_missing_api_key_witness:
  "status (fst (chat repr_unused (replying ''hello'') (AIService Map.empty) 0
       \<lparr> is_json = True, json_body = [(''prompt'', JStr ''hi''), (''model'', JStr ''gpt'')] \<rparr>)) = 500
   \<and> (\<exists>msg. map_of (payload (fst (chat repr_unused (replying ''hello'') (AIService Map.empty) 0
         \<lparr> is_json = True, json_body = [(''prompt'', JStr ''hi''), (''model'', JStr ''gpt'')] \<rparr>)))
          ''error'' = Some (JStr msg)
        \<and> sublist ''OPENAI_API_KEY'' msg)"
proof -
  have sp: "\<not> (\<forall>c\<in>set ''hi''. py_isspace c)" by (simp add: py_isspace_def)
  have a: "AIService Map.empty = after_calls repr_unused (AIService Map.empty) []" by simp
  show ?thesis
    using chat_missing_api_key [OF a, of
        "\<lparr> is_json = True, json_body = [(''prompt'', JStr ''hi''), (''model'', JStr ''gpt'')] \<rparr>"
        "''hi''" "''gpt''" "''OPENAI_API_KEY''" "replying ''hello''" 0] sp
    by (simp add: lower_valid)
qed

section \<open>Properties of the agent loop\<close>

lemma message_pair_cases:
  "(\<exists>e. message_pair validate u a = Inl e)
   \<or> message_pair validate u a = Inr [HumanMessage u, AIMessage a]"
  by (auto simp: message_pair_def split: option.splits)

lemma on_exception_cases:
  "(\<exists>e'. on_exception validate h u e = (h, Crash e'))
   \<or> on_exception validate h u e
       = (h @ [HumanMessage u, AIMessage (JStr (''Got error: '' @ exn_str e))], Continue)"
  using message_pair_cases [of validate u "JStr (''Got error: '' @ exn_str e)"]
  by (auto simp: on_exception_def)

lemma interactive_step_cases:
  "fst (interactive_step validate repr executor h ev) = h
   \<or> (\<exists>u a. interactive_step validate repr executor h ev
              = (h @ [HumanMessage u, AIMessage a], Continue))"
proof (cases ev)
  case (Line raw)
  show ?thesis
  proof (cases "executor (py_strip raw) h")
    case (Returns result)
    from message_pair_cases [of validate "JStr (py_strip raw)" "result_output repr result"]
    show ?thesis
    proof
      assume "\<exists>e. message_pair validate (JStr (py_strip raw)) (result_output repr result) = Inl e"
      then obtain e where
        "message_pair validate (JStr (py_strip raw)) (result_output repr result) = Inl e" ..
      with Line Returns on_exception_cases [of validate h "JStr (py_strip raw)" e]
      show ?thesis by (auto simp: interactive_step_def Let_def)
    next
      assume "message_pair validate (JStr (py_strip raw)) (result_output repr result)
          = Inr [HumanMessage (JStr (py_strip raw)), AIMessage (result_output repr result)]"
      with Line Returns show ?thesis by (auto simp: interactive_step_def Let_def)
    qed
  next
    case (Raises e)
    with Line on_exception_cases [of validate h "JStr (py_strip raw)" e]
    show ?thesis by (auto simp: interactive_step_def Let_def)
  next
    case Interrupted
    with Line show ?thesis by (auto simp: interactive_step_def Let_def)
  qed
next
  case (InputRaises e)
  with on_exception_cases [of validate h JNull e]
  show ?thesis by (auto simp: interactive_step_def)
next
  case InputInterrupted
  then show ?thesis by (simp add: interactive_step_def)
qed

lemma interactive_step_prefix:
  "prefix h (fst (interactive_step validate repr executor h ev))"
  using interactive_step_cases [of validate repr executor h ev] by auto

lemma interactive_loop_prefix:
  "prefix h (fst (interactive_loop validate repr executor h evs))"
proof (induction evs arbitrary: h)
  case Nil
  then show ?case by simp
next
  case (Cons ev evs)
  obtain h' ctl where s: "interactive_step validate repr executor h ev = (h', ctl)"
    by (cases "interactive_step validate repr executor h ev")
  with interactive_step_prefix [of h validate repr executor ev] have p: "prefix h h'" by simp
  show ?case
  proof (cases ctl)
    case Continue
    with s have "interactive_loop validate repr executor h (ev # evs)
        = interactive_loop validate repr executor h' evs" by simp
    with p Cons.IH [of h'] show ?thesis by (metis prefix_order.order_trans)
  next
    case Break
    with s p show ?thesis by simp
  next
    case (Crash e)
    with s p show ?thesis by simp
  qed
qed

lemma interactive_loop_append:
  "interactive_loop validate repr executor h (evs1 @ evs2)
   = (case interactive_loop validate repr executor h evs1 of
        (h', Continue) \<Rightarrow> interactive_loop validate repr executor h' evs2
      | (h', ctl) \<Rightarrow> (h', ctl))"
proof (induction evs1 arbitrary: h)
  case Nil
  then show ?case by simp
next
  case (Cons ev evs1)
  then show ?case
    by (cases "interactive_step validate repr executor h ev")
      (auto split: control.splits)
qed

lemma interactive_loop_grows:
  "prefix (fst (interactive_loop validate repr executor h evs1))
     (fst (interactive_loop validate repr executor h (evs1 @ evs2)))"
proof (cases "interactive_loop validate repr executor h evs1")
  case (Pair h' ctl)
  then show ?thesis
    using interactive_loop_prefix [of h' validate repr executor evs2]
    by (cases ctl) (simp_all add: interactive_loop_append)
qed

text \<open>
  C8. The conversation history of \<open>interactive_mode\<close> is append-only. One turn of
  the loop leaves \<open>chat_history\<close> as it was, or appends exactly one pair of a
  \<open>HumanMessage\<close> and an \<open>AIMessage\<close> to it and goes on. It is left as it was on
  an empty input, on \<open>quit\<close>, \<open>exit\<close> or \<open>q\<close>, and on a keyboard interrupt. When
  the agent returns, the pair is the stripped input and the output of the result; when
  it raises, the pair is the stripped input and \<open>Got error:\<close> with the text of the
  exception (the message classes accepting these contents). Over the session the
  history after any number of inputs is a prefix of the history after more inputs:
  no earlier entry is changed or removed.
\<close>

theorem history_append_only:
  "(fst (interactive_step validate repr executor h ev) = h
      \<or> (\<exists>u a. interactive_step validate repr executor h ev
                 = (h @ [HumanMessage u, AIMessage a], Continue)))
   \<and> (ev = InputInterrupted
        \<or> (\<exists>raw. ev = Line raw
              \<and> (py_strip raw = [] \<or> py_lower (py_strip raw) \<in> set [''quit'', ''exit'', ''q'']
                 \<or> executor (py_strip raw) h = Interrupted))
      \<longrightarrow> fst (interactive_step validate repr executor h ev) = h)
   \<and> (\<forall>raw result.
        ev = Line raw \<and> py_strip raw \<noteq> []
        \<and> py_lower (py_strip raw) \<notin> set [''quit'', ''exit'', ''q'']
        \<and> executor (py_strip raw) h = Returns result
        \<and> validate (HumanMessage (JStr (py_strip raw))) = None
        \<and> validate (AIMessage (result_output repr result)) = None
      \<longrightarrow> interactive_step validate repr executor h ev
          = (h @ [HumanMessage (JStr (py_strip raw)), AIMessage (result_output repr result)],
             Continue))
   \<and> (\<forall>raw e.
        ev = Line raw \<and> py_strip raw \<noteq> []
        \<and> py_lower (py_strip raw) \<notin> set [''quit'', ''exit'', ''q'']
        \<and> executor (py_strip raw) h = Raises e
        \<and> validate (HumanMessage (JStr (py_strip raw))) = None
        \<and> validate (AIMessage (JStr (''Got error: '' @ exn_str e))) = None
      \<longrightarrow> interactive_step validate repr executor h ev
          = (h @ [HumanMessage (JStr (py_strip raw)),
                  AIMessage (JStr (''Got error: '' @ exn_str e))],
             Continue))
   \<and> prefix (fst (interactive_loop validate repr executor h evs1))
        (fst (interactive_loop validate repr executor h (evs1 @ evs2)))
   \<and> prefix (fst (interactive_mode validate repr executor evs1))
        (fst (interactive_mode validate repr executor (evs1 @ evs2)))"
proof (intro conjI allI impI)
  show "fst (interactive_step validate repr executor h ev) = h
      \<or> (\<exists>u a. interactive_step validate repr executor h ev
                 = (h @ [HumanMessage u, AIMessage a], Continue))"
    by (rule interactive_step_cases)
next
  assume "ev = InputInterrupted
        \<or> (\<exists>raw. ev = Line raw
              \<and> (py_strip raw = [] \<or> py_lower (py_strip raw) \<in> set [''quit'', ''exit'', ''q'']
                 \<or> executor (py_strip raw) h = Interrupted))"
  then show "fst (interactive_step validate repr executor h ev) = h"
    by (auto simp: interactive_step_def Let_def)
next
  fix raw result
  assume "ev = Line raw \<and> py_strip raw \<noteq> []
        \<and> py_lower (py_strip raw) \<notin> set [''quit'', ''exit'', ''q'']
        \<and> executor (py_strip raw) h = Returns result
        \<and> validate (HumanMessage (JStr (py_strip raw))) = None
        \<and> validate (AIMessage (result_output repr result)) = None"
  then show "interactive_step validate repr executor h ev
          = (h @ [HumanMessage (JStr (py_strip raw)), AIMessage (result_output repr result)],
             Continue)"
    by (simp add: interactive_step_def Let_def message_pair_def)
next
  fix raw e
  assume "ev = Line raw \<and> py_strip raw \<noteq> []
        \<and> py_lower (py_strip raw) \<notin> set [''quit'', ''exit'', ''q'']
        \<and> executor (py_strip raw) h = Raises e
        \<and> validate (HumanMessage (JStr (py_strip raw))) = None
        \<and> validate (AIMessage (JStr (''Got error: '' @ exn_str e))) = None"
  then show "interactive_step validate repr executor h ev
          = (h @ [HumanMessage (JStr (py_strip raw)),
                  AIMessage (JStr (''Got error: '' @ exn_str e))],
             Continue)"
    by (simp add: interactive_step_def Let_def on_exception_def message_pair_def)
next
  show "prefix (fst (interactive_loop validate repr executor h evs1))
        (fst (interactive_loop validate repr executor h (evs1 @ evs2)))"
    by (rule interactive_loop_grows)
next
  show "prefix (fst (interactive_mode validate repr executor evs1))
        (fst (interactive_mode validate repr executor (evs1 @ evs2)))"
    unfolding interactive_mode_def by (rule interactive_loop_grows)
qed


theorem history_append_only_witness:
  "interactive_step accept_all repr_unused (answering ''done'') [] (Line '' list projects '')
     = ([HumanMessage (JStr ''list projects''), AIMessage (JStr ''done'')], Continue)
   \<and> interactive_step accept_all repr_unused (raising ''timeout'')
       [HumanMessage (JStr ''list projects''), AIMessage (JStr ''done'')] (Line ''add a task'')
     = ([HumanMessage (JStr ''list projects''), AIMessage (JStr ''done''),
         HumanMessage (JStr ''add a task''), AIMessage (JStr ''Got error: timeout'')], Continue)
   \<and> fst (interactive_step accept_all repr_unused (answering ''done'')
       [HumanMessage (JStr ''list projects''), AIMessage (JStr ''done'')] (Line ''quit''))
     = [HumanMessage (JStr ''list projects''), AIMessage (JStr ''done'')]"
proof -
  let ?h = "[HumanMessage (JStr ''list projects''), AIMessage (JStr ''done'')]"
  have s: "py_strip '' list projects '' = ''list projects''" "py_strip ''add a task'' = ''add a task''"
    "py_strip ''quit'' = ''quit''"
    by code_simp+
  have l: "py_lower ''list projects'' \<notin> set [''quit'', ''exit'', ''q'']"
    "py_lower ''add a task'' \<notin> set [''quit'', ''exit'', ''q'']"
    "py_lower ''quit'' \<in> set [''quit'', ''exit'', ''q'']"
    by code_simp+
  have lq: "py_lower ''quit'' = ''quit''" by code_simp
  have o: "result_output repr_unused
      (JObj [(''input'', JStr ''list projects''), (''output'', JStr ''done'')]) = JStr ''done''"
    by (simp add: result_output_def)
  have a: "interactive_step accept_all repr_unused (answering ''done'') [] (Line '' list projects '')
     = ([HumanMessage (JStr ''list projects''), AIMessage (JStr ''done'')], Continue)"
    using history_append_only [of accept_all repr_unused "answering ''done''" "[]"
        "Line '' list projects ''" "[]" "[]"] s l o
    by (simp add: answering_def accept_all_def)
  have b: "interactive_step accept_all repr_unused (raising ''timeout'') ?h (Line ''add a task'')
     = (?h @ [HumanMessage (JStr ''add a task''), AIMessage (JStr ''Got error: timeout'')], Continue)"
    using history_append_only [of accept_all repr_unused "raising ''timeout''" ?h
        "Line ''add a task''" "[]" "[]"] s l
    by (simp add: raising_def accept_all_def)
  have c: "fst (interactive_step accept_all repr_unused (answering ''done'') ?h (Line ''quit'')) = ?h"
    using history_append_only [of accept_all repr_unused "answering ''done''" ?h
        "Line ''quit''" "[]" "[]"] s lq
    by simp
  from a b c show ?thesis by simp
qed

end
